theory Spec2Isabelle
  imports Main
begin

section \<open>The JSON value tree of main.cpp\<close>

text \<open>
  The program declares an abstract class \<open>JsonValue\<close> with one virtual member function,
  \<open>toString\<close>, and six final subclasses. Composite values hold their children through
  \<open>std::unique_ptr\<close>, so a child has exactly one owner and a value is a finite tree: the
  class hierarchy is a datatype with one constructor for each subclass, whose argument is
  the data member of the subclass. Every pointer of a tree owns a value, as every pointer
  that \<open>main\<close> makes with \<open>std::make_unique\<close> does; a pointer that owns nothing is not a
  JSON value and has no place in the datatype.

  \<^item> \<open>JsonNumber\<close> holds a \<open>double\<close>. The program never computes with it; it only hands it
    to the stream. The type of the payload is the type parameter \<open>'d\<close>.
  \<^item> \<open>JsonArray\<close> holds a \<open>std::vector\<close>: the list of the elements, first added first.
  \<^item> \<open>JsonObject\<close> holds a \<open>std::unordered_map\<close>. What the program can observe of it is
    the sequence of entries that a range-based \<open>for\<close> visits, so the member is the list of
    the entries in the iteration order of the table.
\<close>

datatype 'd JsonValue =
    JsonNull
  | JsonString string
  | JsonNumber 'd
  | JsonBoolean bool
  | JsonObject "(string \<times> 'd JsonValue) list"
  | JsonArray "'d JsonValue list"

subsection \<open>Stream output of the standard library\<close>

text \<open>
  \<open>ss << std::boolalpha << value_\<close> writes the name of the truth value, which is
  \<open>true\<close> or \<open>false\<close> in the locale every stream of the program has.
\<close>

definition boolalpha :: "bool \<Rightarrow> string" where
  "boolalpha b = (if b then ''true'' else ''false'')"

text \<open>
  \<open>ss << value_\<close> on a \<open>double\<close> is the conversion of the standard library, which is not
  part of the program. It is the parameter \<open>put\<close> of \<open>toString\<close> below.
\<close>

subsection \<open>Serialisation\<close>

text \<open>
  \<open>toString\<close> is a member function: it is called on an object, and what a call does to
  that object is part of what it does. The model makes that state explicit:
  \<open>toString put v\<close> returns the string the call returns together with the object as it
  is after the call. The bodies assign to no member, so each case hands back the members
  it finds. A composite calls \<open>toString\<close> on each child it owns, in the order of its
  container, through a \<open>std::unique_ptr\<close>, which gives access to the child whether or
  not the composite itself may be changed; the child as it is after its own call is
  what the composite owns from then on, so the loop collects the children after their
  calls next to the text written so far.

  The local \<open>std::stringstream ss\<close> is the string \<open>ss\<close>, and \<open>ss << x\<close> appends to it.
  The range-based \<open>for\<close> is a \<open>fold\<close> over the container.
\<close>

function (domintros)
  toString :: "('d \<Rightarrow> string) \<Rightarrow> 'd JsonValue \<Rightarrow> string \<times> 'd JsonValue" where
  "toString put JsonNull = (''null'', JsonNull)"
| "toString put (JsonString value) =
     ([CHR 0x22] @ value @ [CHR 0x22], JsonString value)"
| "toString put (JsonNumber value) =
     (let ss = [];
          ss = ss @ put value
      in (ss, JsonNumber value))"
| "toString put (JsonBoolean value) =
     (let ss = [];
          ss = ss @ boolalpha value
      in (ss, JsonBoolean value))"
| "toString put (JsonObject properties) =
     (let ss = [];
          ss = ss @ ''{'';
          (ss, properties') =
             fold (\<lambda>(key, value) (ss, visited).
                     let (s, value') = toString put value
                     in (ss @ key @ '':'' @ s @ '','', visited @ [(key, value')]))
                  properties (ss, []);
          ss = ss @ ''}''
      in (ss, JsonObject properties'))"
| "toString put (JsonArray values) =
     (let ss = [];
          ss = ss @ ''['';
          (ss, values') =
             fold (\<lambda>value (ss, visited).
                     let (s, value') = toString put value
                     in (ss @ s @ '','', visited @ [value']))
                  values (ss, []);
          ss = ss @ '']''
      in (ss, JsonArray values'))"
  by pat_completeness auto
termination
  by lexicographic_order

subsection \<open>Construction\<close>

text \<open>
  \<open>JsonArray::add\<close> is \<open>values_.push_back(std::move(value))\<close>. The function takes the
  member \<open>values_\<close> and returns it as it is after the call.
\<close>

definition JsonArray_add :: "'d JsonValue list \<Rightarrow> 'd JsonValue \<Rightarrow> 'd JsonValue list" where
  "JsonArray_add values value = values @ [value]"

text \<open>
  \<open>JsonObject::add\<close> is \<open>properties_.insert({name, value})\<close>. \<open>insert\<close> of
  \<open>std::unordered_map\<close> looks the key up first and changes nothing when the table has an
  entry with an equal key. Otherwise the entry goes into the table, and where the
  iteration then meets it, and in which order it meets the older entries, is the
  choice of the hash table (the output quoted in \<open>main\<close> shows the entry added last in
  the first place). That choice is the parameter \<open>place\<close>: from the entries in iteration
  order and the new entry to the entries in the new iteration order.
\<close>

definition unordered_map_insert ::
  "((string \<times> 'v) list \<Rightarrow> string \<times> 'v \<Rightarrow> (string \<times> 'v) list) \<Rightarrow>
   (string \<times> 'v) list \<Rightarrow> string \<times> 'v \<Rightarrow> (string \<times> 'v) list" where
  "unordered_map_insert place table entry =
     (if fst entry \<in> fst ` set table then table else place table entry)"

definition JsonObject_add ::
  "((string \<times> 'd JsonValue) list \<Rightarrow> string \<times> 'd JsonValue \<Rightarrow> (string \<times> 'd JsonValue) list) \<Rightarrow>
   (string \<times> 'd JsonValue) list \<Rightarrow> string \<Rightarrow> 'd JsonValue \<Rightarrow> (string \<times> 'd JsonValue) list" where
  "JsonObject_add place properties name value =
     unordered_map_insert place properties (name, value)"

section \<open>The loops of toString\<close>

lemma array_loop:
  "fold (\<lambda>value (ss, visited).
           let (s, value') = toString put value
           in (ss @ s @ '','', visited @ [value']))
        values (ss0, visited0) =
   (ss0 @ concat (map (\<lambda>value. fst (toString put value) @ '','') values),
    visited0 @ map (\<lambda>value. snd (toString put value)) values)"
  by (induction "values" arbitrary: ss0 visited0) (simp_all add: case_prod_beta)

lemma object_loop:
  "fold (\<lambda>(key, value) (ss, visited).
           let (s, value') = toString put value
           in (ss @ key @ '':'' @ s @ '','', visited @ [(key, value')]))
        properties (ss0, visited0) =
   (ss0 @ concat (map (\<lambda>(key, value). key @ '':'' @ fst (toString put value) @ '','')
                      properties),
    visited0 @ map (\<lambda>(key, value). (key, snd (toString put value))) properties)"
  by (induction properties arbitrary: ss0 visited0) (simp_all add: case_prod_beta)

lemma toString_array:
  "toString put (JsonArray values) =
     (''['' @ concat (map (\<lambda>value. fst (toString put value) @ '','') values) @ '']'',
      JsonArray (map (\<lambda>value. snd (toString put value)) values))"
  by (subst toString.simps, subst array_loop) simp

lemma toString_object:
  "toString put (JsonObject properties) =
     (''{'' @ concat (map (\<lambda>(key, value). key @ '':'' @ fst (toString put value) @ '','')
                        properties) @ ''}'',
      JsonObject (map (\<lambda>(key, value). (key, snd (toString put value))) properties))"
  by (subst toString.simps, subst object_loop) simp

lemma toString_unchanged: "snd (toString put v) = v"
proof (induction put v rule: toString.induct)
  case (5 put properties)
  have "map (\<lambda>(key, value). (key, snd (toString put value))) properties = properties"
  proof (rule map_idI)
    fix entry assume mem: "entry \<in> set properties"
    obtain key "value" where entry: "entry = (key, value)"
      by (cases entry)
    have "snd (toString put value) = value"
      using mem entry by (intro "5.IH" [OF refl refl]) simp_all
    then show "(case entry of (key, value) \<Rightarrow> (key, snd (toString put value))) = entry"
      by (simp add: entry)
  qed
  then show ?case by (simp only: toString_object snd_conv)
next
  case (6 put elements)
  have "map (\<lambda>value. snd (toString put value)) elements = elements"
    using "6.IH" [OF refl refl] by (intro map_idI) simp
  then show ?case by (simp only: toString_array snd_conv)
qed simp_all

section \<open>The tree of main\<close>

text \<open>
  \<open>main\<close> builds one tree and prints it, and a comment quotes the output. With the
  entries of the two objects in the order of that output, and each number standing for
  the text the stream writes for it, the model gives the quoted line.
\<close>

lemma main_output:
  "fst (toString (\<lambda>text. text)
         (JsonObject
           [(''i'', JsonArray [JsonString ''s3'', JsonNumber ''3.3'']),
            (''a'', JsonString ''s1''), (''b'', JsonNumber ''1.1''),
            (''c'', JsonBoolean True), (''d'', JsonBoolean False), (''e'', JsonNull),
            (''h'', JsonObject [(''f'', JsonString ''s2''), (''g'', JsonNumber ''2.2'')])])) =
     ''{i:['' @ [CHR 0x22] @ ''s3'' @ [CHR 0x22] @ '',3.3,],a:'' @ [CHR 0x22] @ ''s1''
       @ [CHR 0x22] @ '',b:1.1,c:true,d:false,e:null,h:{f:'' @ [CHR 0x22] @ ''s2''
       @ [CHR 0x22] @ '',g:2.2,},}''"
  by (simp add: boolalpha_def)

section \<open>A sequence of calls of add on an array\<close>

lemma JsonArray_add_fold:
  "fold (\<lambda>value values. JsonArray_add values value) added values = values @ added"
  by (induction added arbitrary: "values") (simp_all add: JsonArray_add_def)

section \<open>Serialisation of each kind of value\<close>

text \<open>
  C1. The text of an array is \<open>[\<close>, then for each element, in the order the elements
  were added, the text of the element followed by a comma, the last element included,
  then \<open>]\<close>. The text of the array without elements is \<open>[]\<close>. The second equation is
  the first one for the array that calls of \<open>add\<close> build from the empty array.
\<close>

theorem JsonArray_toString:
  "fst (toString put (JsonArray values)) =
     ''['' @ concat (map (\<lambda>value. fst (toString put value) @ '','') values) @ '']''
   \<and> fst (toString put
            (JsonArray (fold (\<lambda>value values. JsonArray_add values value) added []))) =
       ''['' @ concat (map (\<lambda>value. fst (toString put value) @ '','') added) @ '']''
   \<and> fst (toString put (JsonArray [])) = ''[]''"
  by (simp add: toString_array JsonArray_add_fold del: toString.simps)

text \<open>
  C2. The text of an object is \<open>{\<close>, then for each stored entry, in the order in which
  the table hands its entries out, the key as it is, without quotes, a colon, the text of
  the value and a comma, the last entry included, then \<open>}\<close>. There is one such segment
  for each stored entry. The text of the object without entries is \<open>{}\<close>, and the text
  of the object whose one entry has the key \<open>f\<close> and the string \<open>s2\<close> is \<open>{f:"s2",}\<close>.
\<close>

theorem JsonObject_toString:
  "fst (toString put (JsonObject properties)) =
     ''{'' @ concat (map (\<lambda>(key, value). key @ '':'' @ fst (toString put value) @ '','')
                        properties) @ ''}''
   \<and> length (map (\<lambda>(key, value). key @ '':'' @ fst (toString put value) @ '','')
                 properties) = length properties
   \<and> fst (toString put (JsonObject [])) = ''{}''
   \<and> fst (toString put (JsonObject [(''f'', JsonString ''s2'')])) =
       ''{f:'' @ [CHR 0x22] @ ''s2'' @ [CHR 0x22] @ '',}''"
  by (simp add: toString_object del: toString.simps(5))

text \<open>
  C3. The text of a string value is a double quote (character 0x22), the characters of
  the content as they are, and a double quote. Nothing is escaped, whatever the content
  holds: the content is what is left of the text when the first and the last character
  are taken away, and the text is two characters longer than the content.
\<close>

theorem JsonString_toString:
  "fst (toString put (JsonString s)) = [CHR 0x22] @ s @ [CHR 0x22]
   \<and> butlast (tl (fst (toString put (JsonString s)))) = s
   \<and> length (fst (toString put (JsonString s))) = length s + 2"
  by (simp add: butlast_append)

text \<open>
  C4. The text of the Boolean value that holds true is \<open>true\<close>, and the text of the one
  that holds false is \<open>false\<close>.
\<close>

theorem JsonBoolean_toString:
  "fst (toString put (JsonBoolean True)) = ''true''
   \<and> fst (toString put (JsonBoolean False)) = ''false''"
  by (simp add: boolalpha_def)

text \<open>
  C5. The array made by \<open>add\<close> of the string \<open>s3\<close> and then \<open>add\<close> of a number \<open>x\<close> to the
  empty array has the text \<open>["s3",\<close>, the conversion of \<open>x\<close> by the stream, and \<open>,]\<close>. On a
  host whose conversion writes the number as \<open>3.3\<close>, as the conversion of the
  \<open>double\<close> 3.3 does, the text is \<open>["s3",3.3,]\<close>.
\<close>

theorem scenario_array_toString:
  "fst (toString put
         (JsonArray (JsonArray_add (JsonArray_add [] (JsonString ''s3'')) (JsonNumber x)))) =
     ''['' @ [CHR 0x22] @ ''s3'' @ [CHR 0x22] @ '','' @ put x @ '',]''
   \<and> (put x = ''3.3'' \<longrightarrow>
        fst (toString put
              (JsonArray (JsonArray_add (JsonArray_add [] (JsonString ''s3'')) (JsonNumber x)))) =
          ''['' @ [CHR 0x22] @ ''s3'' @ [CHR 0x22] @ '',3.3,]'')"
  by (simp add: JsonArray_add_def toString_array del: toString.simps(6))

theorem scenario_array_toString_witness:
  "(\<lambda>text. text) ''3.3'' = ''3.3''
   \<and> fst (toString (\<lambda>text. text)
            (JsonArray (JsonArray_add (JsonArray_add [] (JsonString ''s3''))
                                      (JsonNumber ''3.3'')))) =
       ''['' @ [CHR 0x22] @ ''s3'' @ [CHR 0x22] @ '',3.3,]''"
  using scenario_array_toString [of "\<lambda>text. text" "''3.3''"] by simp

section \<open>Construction\<close>

text \<open>
  C6. \<open>add\<close> on an array puts the value behind the elements that are there: the elements
  before the call are the first elements after it, in the same order, and the one
  element behind them is the value. There is no case in which \<open>add\<close> does something
  else, however many elements the array has, and any sequence of calls of \<open>add\<close> leaves
  the values in the order of the calls.
\<close>

theorem JsonArray_add_appends:
  "take (length values) (JsonArray_add values value) = values
   \<and> drop (length values) (JsonArray_add values value) = [value]
   \<and> fold (\<lambda>value values. JsonArray_add values value) added values = values @ added"
  by (simp add: JsonArray_add_fold) (simp add: JsonArray_add_def)

text \<open>
  C10. \<open>add\<close> on an object that has an entry for the key, with the value \<open>value\<close>, leaves
  the entries as they are, whatever the new value is: the key still has the value
  \<open>value\<close>, and there are as many entries as before.
\<close>

theorem JsonObject_add_existing_key:
  "(name, value) \<in> set properties \<Longrightarrow>
     JsonObject_add place properties name value' = properties
     \<and> (name, value) \<in> set (JsonObject_add place properties name value')
     \<and> length (JsonObject_add place properties name value') = length properties"
  by (force simp: JsonObject_add_def unordered_map_insert_def)

theorem JsonObject_add_existing_key_witness:
  "(''a'', JsonString ''s1'') \<in> set [(''a'', JsonString ''s1'' :: nat JsonValue)]
   \<and> JsonObject_add (\<lambda>table entry. entry # table) [(''a'', JsonString ''s1'' :: nat JsonValue)]
        ''a'' JsonNull = [(''a'', JsonString ''s1'')]"
  using JsonObject_add_existing_key
    [of "''a''" "JsonString ''s1'' :: nat JsonValue" "[(''a'', JsonString ''s1'')]"
        "\<lambda>table entry. entry # table" JsonNull]
  by simp

section \<open>Effects and termination of toString\<close>

text \<open>
  C7. A call of \<open>toString\<close> leaves the value it is called on as it was, with everything
  the value owns: the value after the call is the value before the call. The value and
  the returned string are all there is of the call.
\<close>

theorem toString_leaves_value:
  "snd (toString put v) = v \<and> toString put v = (fst (toString put v), v)"
  by (simp add: toString_unchanged prod_eq_iff)

text \<open>
  C9. \<open>toString\<close> terminates on every value: each recursive call is on a child that the
  value owns, and from no value is there an endless chain of such calls
  (\<open>toString_dom\<close> holds of the arguments on which the recursion of \<open>toString\<close> is
  well-founded). So the call runs to completion and returns a string.
\<close>

theorem toString_terminates:
  "toString_dom (put, v) \<and> (\<exists>s. toString put v = (s, v))"
proof (rule conjI)
  show "\<exists>s. toString put v = (s, v)"
    by (intro exI [of _ "fst (toString put v)"]) (simp add: toString_unchanged prod_eq_iff)
next
  show "toString_dom (put, v)"
  proof (induction v)
    case (JsonObject properties)
    show ?case
    proof (rule toString.domintros(5))
      fix key "value"
      assume "(key, value) \<in> set properties"
      then show "toString_dom (put, value)"
        using JsonObject by force
    qed
  next
    case (JsonArray elements)
    then show ?case by (auto intro: toString.domintros)
  qed (auto intro: toString.domintros)
qed

end
